theory Spec2Isabelle
  imports Main
begin

section \<open>Data model\<close>

text \<open>
  The application is a React client. Its state lives in component state cells
  (\<^verbatim>\<open>useState\<close>) and changes only through their setters; everything else a handler
  does is an observable effect (a backend call, a console line, a blocking alert, an
  assignment to \<^verbatim>\<open>window.location.href\<close>, a timer). The embedding keeps both: a handler
  is a function from the outcome of the backend call it awaits to the list of effects it
  performs, in program order, together with the way its promise settles.

  \<^verbatim>\<open>User\<close> and \<^verbatim>\<open>Session\<close> are the types of the authentication SDK. Only the fields the
  code reads are kept: \<^verbatim>\<open>user.email\<close> (optional in the SDK) and \<^verbatim>\<open>session.user\<close>, which
  the SDK declares as a \<^verbatim>\<open>User\<close>, never null.
\<close>

record supabase_user =
  user_id :: string
  email :: "string option"

record supabase_session =
  access_token :: string
  session_user :: supabase_user

text \<open>A value that a \<^verbatim>\<open>throw\<close> or a rejected promise carries.\<close>

datatype js_error = Error string | AuthError string

text \<open>How an awaited backend promise settles.\<close>

datatype 'a awaited = Resolves 'a | Rejects js_error

text \<open>
  \<^verbatim>\<open>supabase.auth.getSession()\<close> resolves to \<^verbatim>\<open>{ data: { session }, error }\<close>;
  \<^verbatim>\<open>signInWithOAuth\<close> and \<^verbatim>\<open>signOut\<close> resolve to an object whose \<^verbatim>\<open>error\<close> field is
  the only one the code reads.
\<close>

record getSession_response =
  data_session :: "supabase_session option"
  gs_error :: "js_error option"

type_synonym error_response = "js_error option"

datatype auth_event =
  INITIAL_SESSION | SIGNED_IN | SIGNED_OUT | TOKEN_REFRESHED | USER_UPDATED
  | PASSWORD_RECOVERY

text \<open>The three state cells of \<^verbatim>\<open>AuthProvider\<close>, with their initial values.\<close>

record auth_state =
  user :: "supabase_user option"
  session :: "supabase_session option"
  loading :: bool

definition AuthProvider_init :: auth_state where
  "AuthProvider_init = \<lparr>user = None, session = None, loading = True\<rparr>"

section \<open>Effects and exceptions\<close>

datatype effect =
  SetSession "supabase_session option"
  | SetUser "supabase_user option"
  | SetLoading bool
  | GetSession
  | SignInWithOAuth string string
  | AuthSignOut
  | ConsoleLog string "string option"
  | ConsoleError string js_error
  | Alert string
  | SetLocationHref string
  | Delay nat

text \<open>
  A computation yields the effects it performed and either the value it returned
  (\<open>Inr\<close>) or the exception that escaped it (\<open>Inl\<close>). Effects performed before a
  \<^verbatim>\<open>throw\<close> stay performed.
\<close>

type_synonym 'a io = "effect list \<times> (js_error + 'a)"

definition io_return :: "'a \<Rightarrow> 'a io" where
  "io_return x = ([], Inr x)"

definition io_throw :: "js_error \<Rightarrow> 'a io" where
  "io_throw e = ([], Inl e)"

definition emit :: "effect \<Rightarrow> unit io" where
  "emit eff = ([eff], Inr ())"

definition io_bind :: "'a io \<Rightarrow> ('a \<Rightarrow> 'b io) \<Rightarrow> 'b io" where
  "io_bind m f =
     (case m of
        (es, Inl e) \<Rightarrow> (es, Inl e)
      | (es, Inr x) \<Rightarrow> (case f x of (es', r) \<Rightarrow> (es @ es', r)))"

definition io_then :: "unit io \<Rightarrow> 'b io \<Rightarrow> 'b io" where
  "io_then m n = io_bind m (\<lambda>_. n)"

definition try_catch :: "'a io \<Rightarrow> (js_error \<Rightarrow> 'a io) \<Rightarrow> 'a io" where
  "try_catch m h =
     (case m of
        (es, Inl e) \<Rightarrow> (case h e of (es', r) \<Rightarrow> (es @ es', r))
      | (es, Inr x) \<Rightarrow> (es, Inr x))"

text \<open>\<^verbatim>\<open>await call\<close>: the call is an effect; a rejection is thrown at the await.\<close>

definition await :: "effect \<Rightarrow> 'a awaited \<Rightarrow> 'a io" where
  "await call outcome =
     io_then (emit call)
       (case outcome of Resolves x \<Rightarrow> io_return x | Rejects e \<Rightarrow> io_throw e)"

text \<open>What the setters among the effects do to the state cells of \<^verbatim>\<open>AuthProvider\<close>.\<close>

fun apply_effect :: "auth_state \<Rightarrow> effect \<Rightarrow> auth_state" where
  "apply_effect st (SetSession s) = st\<lparr>session := s\<rparr>"
| "apply_effect st (SetUser u) = st\<lparr>user := u\<rparr>"
| "apply_effect st (SetLoading b) = st\<lparr>loading := b\<rparr>"
| "apply_effect st _ = st"

definition commit :: "'a io \<Rightarrow> auth_state \<Rightarrow> auth_state" where
  "commit m st = foldl apply_effect st (fst m)"

definition throws :: "'a io \<Rightarrow> bool" where
  "throws m = (case snd m of Inl _ \<Rightarrow> True | Inr _ \<Rightarrow> False)"

section \<open>The Session Store: \<^verbatim>\<open>AuthContext\<close>\<close>

text \<open>
  \<^verbatim>\<open>
  const getInitialSession = async () => {
    const { data: { session } } = await supabase.auth.getSession();
    setSession(session);
    setUser(session?.user ?? null);
    setLoading(false);
  };
  \<close>
  Nothing catches a rejection of \<^verbatim>\<open>getSession\<close> here: the three setters do not run.
\<close>

definition getInitialSession :: "getSession_response awaited \<Rightarrow> unit io" where
  "getInitialSession outcome =
     io_bind (await GetSession outcome) (\<lambda>r.
       io_then (emit (SetSession (data_session r)))
      (io_then (emit (SetUser (map_option session_user (data_session r))))
               (emit (SetLoading False))))"

text \<open>
  \<^verbatim>\<open>
  supabase.auth.onAuthStateChange(async (event, session) => {
    console.log('Auth state changed:', event, session?.user?.email);
    setSession(session);
    setUser(session?.user ?? null);
    setLoading(false);
  });
  \<close>
\<close>

definition onAuthStateChange_callback ::
    "auth_event \<Rightarrow> supabase_session option \<Rightarrow> unit io" where
  "onAuthStateChange_callback event s =
     io_then (emit (ConsoleLog ''Auth state changed:''
                      (Option.bind s (\<lambda>x. email (session_user x)))))
    (io_then (emit (SetSession s))
    (io_then (emit (SetUser (map_option session_user s)))
             (emit (SetLoading False))))"

text \<open>
  \<^verbatim>\<open>
  const signInWithGoogle = async () => {
    try {
      setLoading(true);
      const { error } = await supabase.auth.signInWithOAuth({
        provider: 'google',
        options: { redirectTo: `${window.location.origin}/auth/callback` }
      });
      if (error) throw error;
    } catch (error) {
      console.error('Error signing in with Google:', error);
      alert('Failed to sign in with Google. Please try again.');
      setLoading(false);
    }
  };
  \<close>
\<close>

definition signInWithGoogle :: "string \<Rightarrow> error_response awaited \<Rightarrow> unit io" where
  "signInWithGoogle origin outcome =
     try_catch
       (io_then (emit (SetLoading True))
         (io_bind (await (SignInWithOAuth ''google'' (origin @ ''/auth/callback'')) outcome)
            (\<lambda>error. case error of Some e \<Rightarrow> io_throw e | None \<Rightarrow> io_return ())))
       (\<lambda>error.
          io_then (emit (ConsoleError ''Error signing in with Google:'' error))
         (io_then (emit (Alert ''Failed to sign in with Google. Please try again.''))
                  (emit (SetLoading False))))"

text \<open>
  \<^verbatim>\<open>
  const signOut = async () => {
    try {
      const { error } = await supabase.auth.signOut();
      if (error) throw error;
    } catch (error) {
      console.error('Error signing out:', error);
      alert('Failed to sign out. Please try again.');
    }
    try {
      window.location.href = '/';
    } catch (_) {
      // no-op for non-browser environments
    }
  };
  \<close>
  In the browser the assignment to \<^verbatim>\<open>window.location.href\<close> is the navigation and does
  not throw; the handler of the second \<^verbatim>\<open>try\<close> returns without doing anything.
\<close>

definition signOut :: "error_response awaited \<Rightarrow> unit io" where
  "signOut outcome =
     io_then
       (try_catch
          (io_bind (await AuthSignOut outcome)
             (\<lambda>error. case error of Some e \<Rightarrow> io_throw e | None \<Rightarrow> io_return ()))
          (\<lambda>error.
             io_then (emit (ConsoleError ''Error signing out:'' error))
                     (emit (Alert ''Failed to sign out. Please try again.''))))
       (try_catch (emit (SetLocationHref ''/'')) (\<lambda>_. io_return ()))"

text \<open>
  The value \<^verbatim>\<open>AuthProvider\<close> hands to \<^verbatim>\<open>AuthContext.Provider\<close>:
  \<^verbatim>\<open>{ user, session, loading, signInWithGoogle, signOut }\<close>.
\<close>

record AuthContextType =
  ctx_user :: "supabase_user option"
  ctx_session :: "supabase_session option"
  ctx_loading :: bool
  ctx_signInWithGoogle :: "error_response awaited \<Rightarrow> unit io"
  ctx_signOut :: "error_response awaited \<Rightarrow> unit io"

definition AuthProvider_value :: "string \<Rightarrow> auth_state \<Rightarrow> AuthContextType" where
  "AuthProvider_value origin st =
     \<lparr>ctx_user = user st, ctx_session = session st, ctx_loading = loading st,
      ctx_signInWithGoogle = signInWithGoogle origin, ctx_signOut = signOut\<rparr>"

text \<open>
  \<^verbatim>\<open>useContext(AuthContext)\<close> reads the value of the nearest enclosing provider, and the
  default \<^verbatim>\<open>undefined\<close> of \<^verbatim>\<open>createContext\<close> when there is none. A component's position
  is the list of the values of the providers around it, innermost first.
\<close>

definition useContext :: "'a list \<Rightarrow> 'a option" where
  "useContext providers = (case providers of [] \<Rightarrow> None | v # _ \<Rightarrow> Some v)"

text \<open>
  \<^verbatim>\<open>
  export const useAuth = () => {
    const context = useContext(AuthContext);
    if (context === undefined) {
      throw new Error('useAuth must be used within an AuthProvider');
    }
    return context;
  };
  \<close>
\<close>

definition useAuth :: "AuthContextType list \<Rightarrow> js_error + AuthContextType" where
  "useAuth providers =
     (case useContext providers of
        None \<Rightarrow> Inl (Error ''useAuth must be used within an AuthProvider'')
      | Some context \<Rightarrow> Inr context)"

text \<open>
  The store changes when the initial fetch settles and each time the backend delivers an
  auth-change event to the subscription. \<open>deliver\<close> runs the subscription's callback on
  a sequence of events, oldest first; \<open>run_store\<close> does the same for any interleaving of
  the two kinds of update.
\<close>

datatype store_update =
  InitialFetch "getSession_response awaited"
  | AuthChange auth_event "supabase_session option"

fun store_update_io :: "store_update \<Rightarrow> unit io" where
  "store_update_io (InitialFetch outcome) = getInitialSession outcome"
| "store_update_io (AuthChange event s) = onAuthStateChange_callback event s"

definition run_store :: "store_update list \<Rightarrow> auth_state \<Rightarrow> auth_state" where
  "run_store us st = foldl (\<lambda>acc u. commit (store_update_io u) acc) st us"

definition deliver ::
    "(auth_event \<times> supabase_session option) list \<Rightarrow> auth_state \<Rightarrow> auth_state" where
  "deliver evs st = run_store (map (\<lambda>ev. AuthChange (fst ev) (snd ev)) evs) st"

section \<open>The callback handler: \<^verbatim>\<open>AuthCallback\<close>\<close>

text \<open>
  \<^verbatim>\<open>
  const handleAuthCallback = async () => {
    try {
      await new Promise(resolve => setTimeout(resolve, 1000));
      if (user) {
        console.log('Authentication successful:', user.email);
        window.location.href = '/';
      } else {
        const { data, error } = await supabase.auth.getSession();
        if (error) {
          console.error('Error handling auth callback:', error);
          window.location.href = '/?error=auth_failed';
          return;
        }
        if (data.session) {
          console.log('Authentication successful:', data.session.user.email);
          window.location.href = '/';
        } else {
          window.location.href = '/';
        }
      }
    } catch (error) {
      console.error('Unexpected error during auth callback:', error);
      window.location.href = '/?error=unexpected_error';
    }
  };
  \<close>
  \<open>captured_user\<close> is the \<^verbatim>\<open>user\<close> of the render whose effect started this run of the
  handler: the closure reads that value, also after the delay.
\<close>

definition handleAuthCallback ::
    "supabase_user option \<Rightarrow> getSession_response awaited \<Rightarrow> unit io" where
  "handleAuthCallback captured_user outcome =
     try_catch
       (io_then (emit (Delay 1000))
         (case captured_user of
            Some u \<Rightarrow>
              io_then (emit (ConsoleLog ''Authentication successful:'' (email u)))
                      (emit (SetLocationHref ''/''))
          | None \<Rightarrow>
              io_bind (await GetSession outcome) (\<lambda>r.
                case gs_error r of
                  Some error \<Rightarrow>
                    io_then (emit (ConsoleError ''Error handling auth callback:'' error))
                            (emit (SetLocationHref ''/?error=auth_failed''))
                | None \<Rightarrow>
                    (case data_session r of
                       Some s \<Rightarrow>
                         io_then (emit (ConsoleLog ''Authentication successful:''
                                          (email (session_user s))))
                                 (emit (SetLocationHref ''/''))
                     | None \<Rightarrow> emit (SetLocationHref ''/'')))))
       (\<lambda>error.
          io_then (emit (ConsoleError ''Unexpected error during auth callback:'' error))
                  (emit (SetLocationHref ''/?error=unexpected_error'')))"

text \<open>
  The component reads \<^verbatim>\<open>user\<close> through \<^verbatim>\<open>useAuth\<close> and starts the handler from an effect
  with the dependency list \<^verbatim>\<open>[user]\<close>: on mount, and again when \<^verbatim>\<open>user\<close> changes, each
  run with the \<^verbatim>\<open>user\<close> of the render that started it.
\<close>

definition AuthCallback_useEffect ::
    "AuthContextType list \<Rightarrow> getSession_response awaited \<Rightarrow> js_error + unit io" where
  "AuthCallback_useEffect providers outcome =
     (case useAuth providers of
        Inl e \<Rightarrow> Inl e
      | Inr context \<Rightarrow> Inr (handleAuthCallback (ctx_user context) outcome))"

text \<open>
  The callback route from mount to the end of the delay. \<open>st\<close> is the store at the
  mount render and \<open>during\<close> the updates the store receives while the handler waits.
  The result is the store when the delay ends, and the run that the mount effect
  started: the closure of that run holds the \<^verbatim>\<open>user\<close> of the mount render, whatever the
  store becomes meanwhile.
\<close>

definition AuthCallback_mount ::
    "string \<Rightarrow> auth_state \<Rightarrow> store_update list \<Rightarrow> getSession_response awaited
       \<Rightarrow> auth_state \<times> (js_error + unit io)" where
  "AuthCallback_mount origin st during outcome =
     (run_store during st, AuthCallback_useEffect [AuthProvider_value origin st] outcome)"

text \<open>The redirects a run performed, and the number of session fetches it made.\<close>

fun redirects :: "effect list \<Rightarrow> string list" where
  "redirects [] = []"
| "redirects (SetLocationHref url # es) = url # redirects es"
| "redirects (_ # es) = redirects es"

definition fetches :: "effect list \<Rightarrow> nat" where
  "fetches es = length (filter (\<lambda>e. e = GetSession) es)"

section \<open>The Navigation Controller\<close>

datatype Page = landing | learner | admin | translation | voice

datatype element =
  LandingPage | LearnerModule | AdminDashboard | TranslationModule | VoiceModule
  | AuthCallback

text \<open>
  \<^verbatim>\<open>const [currentPage, setCurrentPage] = useState<Page>('landing')\<close>: one state cell,
  replaced by its setter, which every presenter receives as \<^verbatim>\<open>onNavigate\<close>.
\<close>

definition initial_currentPage :: Page where
  "initial_currentPage = landing"

definition setCurrentPage :: "Page \<Rightarrow> Page \<Rightarrow> Page" where
  "setCurrentPage page currentPage = page"

text \<open>
  The variant without authentication. The \<^verbatim>\<open>default\<close> branch of each \<^verbatim>\<open>switch\<close> is
  behind the five cases of the type \<^verbatim>\<open>Page\<close>.
\<close>

fun App_renderPage :: "Page \<Rightarrow> element" where
  "App_renderPage landing = LandingPage"
| "App_renderPage learner = LearnerModule"
| "App_renderPage admin = AdminDashboard"
| "App_renderPage translation = TranslationModule"
| "App_renderPage voice = VoiceModule"

definition App :: "Page \<Rightarrow> element" where
  "App currentPage = App_renderPage currentPage"

text \<open>
  The variant with authentication.
  \<^verbatim>\<open>
  function AppContent() {
    const [currentPage, setCurrentPage] = useState<Page>('landing');
    const { user } = useAuth();
    if (window.location.pathname === '/auth/callback') {
      return <AuthCallback />;
    }
    if (user && currentPage === 'landing') {
      setTimeout(() => setCurrentPage('learner'), 0);
    }
    ...
    return <>{renderPage()}</>;
  }
  \<close>
  A render yields the element it mounts and the timers it started, each a delay and the
  page its callback passes to \<^verbatim>\<open>setCurrentPage\<close>.
\<close>

fun AppContent_renderPage :: "Page \<Rightarrow> element" where
  "AppContent_renderPage landing = LandingPage"
| "AppContent_renderPage learner = LearnerModule"
| "AppContent_renderPage admin = AdminDashboard"
| "AppContent_renderPage translation = TranslationModule"
| "AppContent_renderPage voice = VoiceModule"

type_synonym rendering = "element \<times> (nat \<times> Page) list"

definition AppContent ::
    "AuthContextType list \<Rightarrow> string \<Rightarrow> Page \<Rightarrow> js_error + rendering" where
  "AppContent providers pathname currentPage =
     (case useAuth providers of
        Inl e \<Rightarrow> Inl e
      | Inr context \<Rightarrow>
          if pathname = ''/auth/callback'' then Inr (AuthCallback, [])
          else Inr (AppContent_renderPage currentPage,
                    if ctx_user context \<noteq> None \<and> currentPage = landing
                    then [(0, learner)] else []))"

text \<open>\<^verbatim>\<open>App\<close> of this variant wraps \<^verbatim>\<open>AppContent\<close> in the \<^verbatim>\<open>AuthProvider\<close>.\<close>

definition App_auth :: "string \<Rightarrow> auth_state \<Rightarrow> string \<Rightarrow> Page \<Rightarrow> js_error + rendering" where
  "App_auth origin st pathname currentPage =
     AppContent [AuthProvider_value origin st] pathname currentPage"

text \<open>
  The next tick of the event loop runs the callbacks of the timers started with delay 0,
  in the order they were started.
\<close>

definition next_tick :: "Page \<Rightarrow> (nat \<times> Page) list \<Rightarrow> Page" where
  "next_tick currentPage timers =
     foldl (\<lambda>p t. setCurrentPage (snd t) p) currentPage (filter (\<lambda>t. fst t = 0) timers)"

section \<open>The translation presenter\<close>

text \<open>
  \<^verbatim>\<open>sourceText\<close> and \<^verbatim>\<open>translatedText\<close> are two template literals of the component, an
  English and a Hindi paragraph; they are kept as two distinct constants. Of the state
  cells, the ones the two text panes and the translate button read are kept.
  \<^verbatim>\<open>
  const handleTranslate = () => {
    setIsTranslating(true);
    setTimeout(() => setIsTranslating(false), 2000);
  };
  \<close>
\<close>

datatype hardcoded_text = sourceText | translatedText

record translation_state =
  sourceLanguage :: string
  targetLanguage :: string
  isTranslating :: bool

text \<open>The cells, a clock in milliseconds, and the pending timers, each the time it is
  due and the value its callback passes to \<^verbatim>\<open>setIsTranslating\<close>.\<close>

record translation_runtime =
  cells :: translation_state
  clock :: nat
  timeouts :: "(nat \<times> bool) list"

definition TranslationModule_init :: translation_runtime where
  "TranslationModule_init =
     \<lparr>cells = \<lparr>sourceLanguage = ''English'', targetLanguage = ''Hindi'',
               isTranslating = False\<rparr>,
      clock = 0, timeouts = []\<rparr>"

definition handleTranslate :: "translation_runtime \<Rightarrow> translation_runtime" where
  "handleTranslate rt =
     rt\<lparr>cells := (cells rt)\<lparr>isTranslating := True\<rparr>,
        timeouts := timeouts rt @ [(clock rt + 2000, False)]\<rparr>"

definition elapse :: "nat \<Rightarrow> translation_runtime \<Rightarrow> translation_runtime" where
  "elapse d rt =
     (let t = clock rt + d in
      rt\<lparr>cells := foldl (\<lambda>c x. c\<lparr>isTranslating := snd x\<rparr>) (cells rt)
                   (filter (\<lambda>x. fst x \<le> t) (timeouts rt)),
         clock := t,
         timeouts := filter (\<lambda>x. \<not> fst x \<le> t) (timeouts rt)\<rparr>)"

text \<open>
  What the component renders in the translation preview: the heading and the text of the
  source pane (\<^verbatim>\<open>{sourceText}\<close>), those of the target pane (\<^verbatim>\<open>{translatedText}\<close>), and
  the translate button (\<^verbatim>\<open>disabled={isTranslating}\<close>, its label by \<^verbatim>\<open>isTranslating\<close>).
\<close>

record translation_view =
  source_heading :: string
  source_pane :: hardcoded_text
  target_heading :: string
  target_pane :: hardcoded_text
  translate_disabled :: bool
  translate_label :: string

definition TranslationModule_render :: "translation_state \<Rightarrow> translation_view" where
  "TranslationModule_render st =
     \<lparr>source_heading = ''Source ('' @ sourceLanguage st @ '')'',
      source_pane = sourceText,
      target_heading = ''Target ('' @ targetLanguage st @ '')'',
      target_pane = translatedText,
      translate_disabled = isTranslating st,
      translate_label = (if isTranslating st then ''Translating...'' else ''Translate'')\<rparr>"

section \<open>Sample values\<close>

text \<open>A signed-in user and her session, for the concrete instances below.\<close>

definition sample_user :: supabase_user where
  "sample_user = \<lparr>user_id = ''u1'', email = Some ''asha@example.org''\<rparr>"

definition sample_session :: supabase_session where
  "sample_session = \<lparr>access_token = ''t1'', session_user = sample_user\<rparr>"

definition signed_in :: auth_state where
  "signed_in = \<lparr>user = Some sample_user, session = Some sample_session, loading = False\<rparr>"

section \<open>Properties of the Session Store\<close>

lemmas io_defs =
  io_return_def io_throw_def emit_def io_bind_def io_then_def try_catch_def await_def

lemma commit_getInitialSession_Resolves:
  "commit (getInitialSession (Resolves r)) st =
     \<lparr>user = map_option session_user (data_session r), session = data_session r,
      loading = False\<rparr>"
  by (simp add: commit_def getInitialSession_def io_defs)

lemma commit_getInitialSession_Rejects:
  "commit (getInitialSession (Rejects e)) st = st"
  by (simp add: commit_def getInitialSession_def io_defs)

lemma commit_onAuthStateChange_callback:
  "commit (onAuthStateChange_callback event s) st =
     \<lparr>user = map_option session_user s, session = s, loading = False\<rparr>"
  by (simp add: commit_def onAuthStateChange_callback_def io_defs)

lemma run_store_Nil: "run_store [] st = st"
  by (simp add: run_store_def)

lemma run_store_snoc:
  "run_store (us @ [u]) st = commit (store_update_io u) (run_store us st)"
  by (simp add: run_store_def)

lemma deliver_Nil: "deliver [] st = st"
  by (simp add: deliver_def run_store_def)

lemma deliver_snoc:
  "deliver (evs @ [ev]) st =
     commit (onAuthStateChange_callback (fst ev) (snd ev)) (deliver evs st)"
  by (simp add: deliver_def run_store_def)

text \<open>Each event overwrites all three cells, so only the last one shows.\<close>

lemma deliver_nonempty:
  "evs \<noteq> [] \<Longrightarrow>
   deliver evs st =
     \<lparr>user = map_option session_user (snd (last evs)), session = snd (last evs),
      loading = False\<rparr>"
  by (cases evs rule: rev_cases)
     (simp_all add: deliver_snoc commit_onAuthStateChange_callback)

lemma deliver_keeps_loaded: "loading st = False \<Longrightarrow> loading (deliver evs st) = False"
  by (cases "evs = []") (simp_all add: deliver_Nil deliver_nonempty)

text \<open>
  Claim C1. Let the initial fetch resolve with \<open>r\<close>, after the events \<open>pre\<close> that the
  backend emitted before it (possibly none), and let \<open>evs\<close> be the events delivered after
  it. If \<open>evs\<close> is not empty, the store's \<^verbatim>\<open>user\<close> is the user of the session of the last
  event of \<open>evs\<close>, and null when that session is null; with no event yet it is the user
  of the fetched session. \<^verbatim>\<open>loading\<close>, true at the start, is false once the fetch has
  resolved, and already after the first event when one comes before the fetch resolves.
\<close>

theorem store_follows_latest_event:
  "(evs \<noteq> [] \<longrightarrow>
      user (deliver evs (commit (getInitialSession (Resolves r)) (deliver pre AuthProvider_init)))
        = (case snd (last evs) of None \<Rightarrow> None | Some s \<Rightarrow> Some (session_user s)))
   \<and> user (commit (getInitialSession (Resolves r)) (deliver pre AuthProvider_init))
        = (case data_session r of None \<Rightarrow> None | Some s \<Rightarrow> Some (session_user s))
   \<and> loading (deliver evs (commit (getInitialSession (Resolves r)) (deliver pre AuthProvider_init)))
        = False
   \<and> (pre \<noteq> [] \<longrightarrow> loading (deliver pre AuthProvider_init) = False)
   \<and> loading AuthProvider_init = True"
  by (auto simp add: deliver_nonempty commit_getInitialSession_Resolves deliver_keeps_loaded
        AuthProvider_init_def split: option.splits)

theorem store_follows_latest_event_witness:
  "user (deliver [(SIGNED_OUT, None), (SIGNED_IN, Some sample_session)]
           (commit (getInitialSession (Resolves \<lparr>data_session = None, gs_error = None\<rparr>))
              (deliver [(INITIAL_SESSION, None)] AuthProvider_init)))
     = Some sample_user
   \<and> loading (deliver [(INITIAL_SESSION, None)] AuthProvider_init) = False"
  using store_follows_latest_event
          [of "[(SIGNED_OUT, None), (SIGNED_IN, Some sample_session)]"
              "\<lparr>data_session = None, gs_error = None\<rparr>" "[(INITIAL_SESSION, None)]"]
  by (simp add: sample_session_def)

text \<open>
  Claim C3. However the backend sign-out call settles (it resolves without an error,
  resolves with an error, or rejects), \<^verbatim>\<open>signOut\<close> lets no exception escape, shows the
  failure alert when there was an error, and ends with the one navigation to the root.
\<close>

theorem signOut_always_navigates_to_root:
  "signOut (Resolves None) = ([AuthSignOut, SetLocationHref ''/''], Inr ())
   \<and> signOut (Resolves (Some e)) =
       ([AuthSignOut, ConsoleError ''Error signing out:'' e,
         Alert ''Failed to sign out. Please try again.'', SetLocationHref ''/''], Inr ())
   \<and> signOut (Rejects e) =
       ([AuthSignOut, ConsoleError ''Error signing out:'' e,
         Alert ''Failed to sign out. Please try again.'', SetLocationHref ''/''], Inr ())
   \<and> \<not> throws (signOut outcome)
   \<and> last (fst (signOut outcome)) = SetLocationHref ''/''
   \<and> redirects (fst (signOut outcome)) = [''/'']"
proof -
  have "\<not> throws (signOut outcome) \<and> last (fst (signOut outcome)) = SetLocationHref ''/''
        \<and> redirects (fst (signOut outcome)) = [''/'']"
    by (cases outcome) (simp_all add: signOut_def io_defs throws_def split: option.split)
  then show ?thesis
    by (simp add: signOut_def io_defs)
qed

text \<open>
  Claim C4. \<^verbatim>\<open>signInWithGoogle\<close> starts with \<^verbatim>\<open>setLoading(true)\<close> and the OAuth call for
  the provider \<^verbatim>\<open>google\<close> with the redirect URL \<^verbatim>\<open><origin>/auth/callback\<close>. When the
  backend returns an error (or the call rejects) it shows the alert and sets \<^verbatim>\<open>loading\<close>
  back to false; \<^verbatim>\<open>user\<close> and \<^verbatim>\<open>session\<close> keep their values, so a null user stays null;
  no exception escapes. On success the only state change is \<^verbatim>\<open>loading = true\<close>.
\<close>

theorem signInWithGoogle_failure_resets_loading:
  "signInWithGoogle origin (Resolves None) =
       ([SetLoading True, SignInWithOAuth ''google'' (origin @ ''/auth/callback'')], Inr ())
   \<and> commit (signInWithGoogle origin (Resolves None)) st = st\<lparr>loading := True\<rparr>
   \<and> signInWithGoogle origin (Resolves (Some e)) =
       ([SetLoading True, SignInWithOAuth ''google'' (origin @ ''/auth/callback''),
         ConsoleError ''Error signing in with Google:'' e,
         Alert ''Failed to sign in with Google. Please try again.'', SetLoading False], Inr ())
   \<and> signInWithGoogle origin (Rejects e) = signInWithGoogle origin (Resolves (Some e))
   \<and> commit (signInWithGoogle origin (Resolves (Some e))) st = st\<lparr>loading := False\<rparr>
   \<and> user (commit (signInWithGoogle origin (Resolves (Some e))) (st\<lparr>user := None\<rparr>)) = None
   \<and> user (commit (signInWithGoogle origin outcome) st) = user st
   \<and> session (commit (signInWithGoogle origin outcome) st) = session st
   \<and> \<not> throws (signInWithGoogle origin outcome)
   \<and> take 2 (fst (signInWithGoogle origin outcome)) =
       [SetLoading True, SignInWithOAuth ''google'' (origin @ ''/auth/callback'')]"
proof -
  have "user (commit (signInWithGoogle origin outcome) st) = user st
        \<and> session (commit (signInWithGoogle origin outcome) st) = session st
        \<and> \<not> throws (signInWithGoogle origin outcome)
        \<and> take 2 (fst (signInWithGoogle origin outcome)) =
            [SetLoading True, SignInWithOAuth ''google'' (origin @ ''/auth/callback'')]"
    by (cases outcome)
       (simp_all add: signInWithGoogle_def io_defs throws_def commit_def split: option.split)
  then show ?thesis
    by (simp add: signInWithGoogle_def io_defs commit_def)
qed

text \<open>The store keeps \<^verbatim>\<open>user\<close> as the projection of \<^verbatim>\<open>session\<close> through every update.\<close>

lemma store_user_of_session:
  "user (run_store us AuthProvider_init)
     = map_option session_user (session (run_store us AuthProvider_init))"
proof (induction us rule: rev_induct)
  case Nil
  show ?case by (simp add: run_store_Nil AuthProvider_init_def)
next
  case (snoc u us)
  show ?case
  proof (cases u)
    case (InitialFetch outcome)
    with snoc show ?thesis
      by (cases outcome)
         (simp_all add: run_store_snoc commit_getInitialSession_Resolves
            commit_getInitialSession_Rejects)
  next
    case (AuthChange event s)
    then show ?thesis
      by (simp add: run_store_snoc commit_onAuthStateChange_callback)
  qed
qed

text \<open>
  Claim C5. After any sequence of store updates (the initial fetch and auth-change
  events, in any order), \<^verbatim>\<open>user\<close> is null exactly when \<^verbatim>\<open>session\<close> is null. The store
  holds at most one session: the one of the latest update, which replaces the one before.
\<close>

theorem user_null_iff_no_session:
  "(user (run_store us AuthProvider_init) = None)
     = (session (run_store us AuthProvider_init) = None)
   \<and> session (run_store (us @ [AuthChange event s]) AuthProvider_init) = s
   \<and> session (run_store (us @ [InitialFetch (Resolves r)]) AuthProvider_init) = data_session r
   \<and> card (set_option (session (run_store us AuthProvider_init))) \<le> 1"
proof -
  have "(user (run_store us AuthProvider_init) = None)
          = (session (run_store us AuthProvider_init) = None)"
    by (simp add: store_user_of_session [of us])
  moreover have "session (run_store (us @ [AuthChange event s]) AuthProvider_init) = s"
    by (simp add: run_store_snoc commit_onAuthStateChange_callback)
  moreover have "session (run_store (us @ [InitialFetch (Resolves r)]) AuthProvider_init)
                   = data_session r"
    by (simp add: run_store_snoc commit_getInitialSession_Resolves)
  moreover have "card (set_option (session (run_store us AuthProvider_init))) \<le> 1"
    by (cases "session (run_store us AuthProvider_init)") simp_all
  ultimately show ?thesis by blast
qed

text \<open>
  Claim C9. A component that calls \<^verbatim>\<open>useAuth\<close> with no \<^verbatim>\<open>AuthProvider\<close> around it gets
  an exception; with a provider around it, the call returns that provider's value, whose
  five fields are the store's \<^verbatim>\<open>user\<close>, \<^verbatim>\<open>session\<close>, \<^verbatim>\<open>loading\<close> and the two handlers.
\<close>

theorem useAuth_outside_throws_inside_returns:
  "useAuth [] = Inl (Error ''useAuth must be used within an AuthProvider'')
   \<and> useAuth (AuthProvider_value origin st # outer) = Inr (AuthProvider_value origin st)
   \<and> ctx_user (AuthProvider_value origin st) = user st
   \<and> ctx_session (AuthProvider_value origin st) = session st
   \<and> ctx_loading (AuthProvider_value origin st) = loading st
   \<and> ctx_signInWithGoogle (AuthProvider_value origin st) = signInWithGoogle origin
   \<and> ctx_signOut (AuthProvider_value origin st) = signOut"
  by (simp add: useAuth_def useContext_def AuthProvider_value_def)

section \<open>Properties of the callback handler\<close>

text \<open>
  One run of the handler, by the \<^verbatim>\<open>user\<close> its closure holds. It first waits 1000 ms.
  With a user it redirects to \<^verbatim>\<open>/\<close> and fetches nothing. With none it fetches the
  session once and redirects to \<^verbatim>\<open>/?error=auth_failed\<close> when the response carries an
  error, to \<^verbatim>\<open>/\<close> when it carries a session, and to \<^verbatim>\<open>/\<close> when it carries none. When
  the fetch throws, it redirects to \<^verbatim>\<open>/?error=unexpected_error\<close>. Every run redirects
  exactly once and lets no exception escape.
\<close>

lemma handleAuthCallback_run:
  "AuthCallback_useEffect (AuthProvider_value origin st # outer) outcome
       = Inr (handleAuthCallback (user st) outcome)
   \<and> handleAuthCallback (Some u) outcome =
       ([Delay 1000, ConsoleLog ''Authentication successful:'' (email u),
         SetLocationHref ''/''], Inr ())
   \<and> handleAuthCallback None (Resolves \<lparr>data_session = d, gs_error = Some e\<rparr>) =
       ([Delay 1000, GetSession, ConsoleError ''Error handling auth callback:'' e,
         SetLocationHref ''/?error=auth_failed''], Inr ())
   \<and> handleAuthCallback None (Resolves \<lparr>data_session = Some s, gs_error = None\<rparr>) =
       ([Delay 1000, GetSession,
         ConsoleLog ''Authentication successful:'' (email (session_user s)),
         SetLocationHref ''/''], Inr ())
   \<and> handleAuthCallback None (Resolves \<lparr>data_session = None, gs_error = None\<rparr>) =
       ([Delay 1000, GetSession, SetLocationHref ''/''], Inr ())
   \<and> handleAuthCallback None (Rejects e) =
       ([Delay 1000, GetSession, ConsoleError ''Unexpected error during auth callback:'' e,
         SetLocationHref ''/?error=unexpected_error''], Inr ())
   \<and> fetches (fst (handleAuthCallback (Some u) outcome)) = 0
   \<and> fetches (fst (handleAuthCallback None outcome)) = 1
   \<and> length (redirects (fst (handleAuthCallback captured_user outcome))) = 1
   \<and> \<not> throws (handleAuthCallback captured_user outcome)"
proof -
  have f0: "fetches (fst (handleAuthCallback (Some u) outcome)) = 0"
    by (simp add: handleAuthCallback_def io_defs fetches_def)
  have f1: "fetches (fst (handleAuthCallback None outcome)) = 1"
    by (cases outcome)
       (simp_all add: handleAuthCallback_def io_defs fetches_def split: option.split)
  have r1: "length (redirects (fst (handleAuthCallback captured_user outcome))) = 1"
    by (cases captured_user; cases outcome)
       (simp_all add: handleAuthCallback_def io_defs split: option.split)
  have nt: "\<not> throws (handleAuthCallback captured_user outcome)"
    by (cases captured_user; cases outcome)
       (simp_all add: handleAuthCallback_def io_defs throws_def split: option.split)
  have ue: "AuthCallback_useEffect (AuthProvider_value origin st # outer) outcome
              = Inr (handleAuthCallback (user st) outcome)"
    by (simp add: AuthCallback_useEffect_def useAuth_def useContext_def AuthProvider_value_def)
  have e1: "handleAuthCallback (Some u) outcome =
       ([Delay 1000, ConsoleLog ''Authentication successful:'' (email u),
         SetLocationHref ''/''], Inr ())"
    by (simp add: handleAuthCallback_def io_defs)
  have e2: "handleAuthCallback None (Resolves \<lparr>data_session = d, gs_error = Some e\<rparr>) =
       ([Delay 1000, GetSession, ConsoleError ''Error handling auth callback:'' e,
         SetLocationHref ''/?error=auth_failed''], Inr ())"
    by (simp add: handleAuthCallback_def io_defs)
  have e3: "handleAuthCallback None (Resolves \<lparr>data_session = Some s, gs_error = None\<rparr>) =
       ([Delay 1000, GetSession,
         ConsoleLog ''Authentication successful:'' (email (session_user s)),
         SetLocationHref ''/''], Inr ())"
    by (simp add: handleAuthCallback_def io_defs)
  have e4: "handleAuthCallback None (Resolves \<lparr>data_session = None, gs_error = None\<rparr>) =
       ([Delay 1000, GetSession, SetLocationHref ''/''], Inr ())"
    by (simp add: handleAuthCallback_def io_defs)
  have e5: "handleAuthCallback None (Rejects e) =
       ([Delay 1000, GetSession, ConsoleError ''Unexpected error during auth callback:'' e,
         SetLocationHref ''/?error=unexpected_error''], Inr ())"
    by (simp add: handleAuthCallback_def io_defs)
  show ?thesis
    by (intro conjI ue e1 e2 e3 e4 e5 f0 f1 r1 nt)
qed

text \<open>
  Claim C2 says that after the delay a store that reports a user sends the handler to
  \<^verbatim>\<open>/\<close> with no query string and without a fetch. The code tests the \<^verbatim>\<open>user\<close> of the
  mount render instead. Here the route is mounted on the initial store, the subscription
  delivers a sign-in during the delay, and the fetch of the mount run resolves with an
  error: when the delay ends the store reports the user, and the mount run still fetches
  the session and redirects to \<^verbatim>\<open>/?error=auth_failed\<close>; when the fetch rejects it
  redirects to \<^verbatim>\<open>/?error=unexpected_error\<close>.
\<close>

theorem mount_run_tests_stale_user:
  "user (fst (AuthCallback_mount ''https://app.example'' AuthProvider_init
                [AuthChange SIGNED_IN (Some sample_session)]
                (Resolves \<lparr>data_session = None, gs_error = Some (AuthError ''fetch failed'')\<rparr>)))
     = Some sample_user
   \<and> snd (AuthCallback_mount ''https://app.example'' AuthProvider_init
                [AuthChange SIGNED_IN (Some sample_session)]
                (Resolves \<lparr>data_session = None, gs_error = Some (AuthError ''fetch failed'')\<rparr>))
     = Inr ([Delay 1000, GetSession,
             ConsoleError ''Error handling auth callback:'' (AuthError ''fetch failed''),
             SetLocationHref ''/?error=auth_failed''], Inr ())
   \<and> snd (AuthCallback_mount ''https://app.example'' AuthProvider_init
                [AuthChange SIGNED_IN (Some sample_session)]
                (Rejects (Error ''fetch failed'')))
     = Inr ([Delay 1000, GetSession,
             ConsoleError ''Unexpected error during auth callback:'' (Error ''fetch failed''),
             SetLocationHref ''/?error=unexpected_error''], Inr ())"
proof -
  have store: "run_store [AuthChange SIGNED_IN (Some sample_session)] AuthProvider_init
                 = signed_in"
    using run_store_snoc [of "[]" "AuthChange SIGNED_IN (Some sample_session)" AuthProvider_init]
    by (simp add: run_store_Nil commit_onAuthStateChange_callback signed_in_def
          sample_session_def)
  have run: "AuthCallback_useEffect [AuthProvider_value ''https://app.example'' AuthProvider_init]
               outcome = Inr (handleAuthCallback None outcome)" for outcome
    by (simp add: AuthCallback_useEffect_def useAuth_def useContext_def AuthProvider_value_def
          AuthProvider_init_def)
  show ?thesis
    by (simp add: AuthCallback_mount_def store run)
       (simp add: signed_in_def handleAuthCallback_def io_defs)
qed

section \<open>Properties of the Navigation Controller\<close>

lemma App_auth_mounts:
  "pathname \<noteq> ''/auth/callback'' \<Longrightarrow>
   map_sum id fst (App_auth origin st pathname p) = Inr (AppContent_renderPage p)"
  by (simp add: App_auth_def AppContent_def useAuth_def useContext_def AuthProvider_value_def)

lemma setCurrentPage_funpow: "(setCurrentPage s ^^ Suc n) p = s"
  by (simp add: setCurrentPage_def)

text \<open>
  Claim C6. When the store's \<^verbatim>\<open>user\<close> is not null, the current screen is \<^verbatim>\<open>landing\<close> and
  the path is not the callback route, the render starts one timer with delay 0 whose
  callback navigates to \<^verbatim>\<open>learner\<close>: after the next tick the screen is \<^verbatim>\<open>learner\<close>, not
  \<^verbatim>\<open>admin\<close>, \<^verbatim>\<open>translation\<close> or \<^verbatim>\<open>voice\<close>.
\<close>

theorem landing_with_user_goes_to_learner:
  assumes "user st \<noteq> None" and "pathname \<noteq> ''/auth/callback''"
  shows "App_auth origin st pathname landing = Inr (LandingPage, [(0, learner)])
         \<and> next_tick landing (snd (projr (App_auth origin st pathname landing))) = learner
         \<and> next_tick landing (snd (projr (App_auth origin st pathname landing)))
             \<notin> {admin, translation, voice}"
  using assms
  by (simp add: App_auth_def AppContent_def useAuth_def useContext_def AuthProvider_value_def
        next_tick_def setCurrentPage_def)

theorem landing_with_user_goes_to_learner_witness:
  "App_auth ''https://app.example'' signed_in ''/'' landing = Inr (LandingPage, [(0, learner)])
   \<and> next_tick landing (snd (projr (App_auth ''https://app.example'' signed_in ''/'' landing)))
       = learner"
proof -
  have h1: "user signed_in \<noteq> None" by (simp add: signed_in_def)
  have h2: "''/'' \<noteq> ''/auth/callback''" by simp
  from landing_with_user_goes_to_learner [OF h1 h2, of "''https://app.example''"]
  show ?thesis by blast
qed

text \<open>
  Claim C7. \<^verbatim>\<open>navigate(s)\<close>, the setter of the screen cell, is idempotent: calling it
  again, any number of times, leaves the state of a single call, for \<^verbatim>\<open>learner\<close> as for
  every screen. Each of the five screens selects its presenter in \<^verbatim>\<open>renderPage\<close> of
  both variants; the variant with authentication mounts that presenter whenever the path
  is not the callback route, the only place where a presenter can call \<^verbatim>\<open>navigate\<close>.
  The cell starts at \<^verbatim>\<open>landing\<close> on every load.
\<close>

theorem navigate_idempotent:
  "setCurrentPage s (setCurrentPage s p) = setCurrentPage s p
   \<and> (setCurrentPage s ^^ Suc n) p = setCurrentPage s p
   \<and> (setCurrentPage learner ^^ Suc n) p = setCurrentPage learner p
   \<and> App (setCurrentPage landing p) = LandingPage
   \<and> App (setCurrentPage learner p) = LearnerModule
   \<and> App (setCurrentPage admin p) = AdminDashboard
   \<and> App (setCurrentPage translation p) = TranslationModule
   \<and> App (setCurrentPage voice p) = VoiceModule
   \<and> AppContent_renderPage (setCurrentPage landing p) = LandingPage
   \<and> AppContent_renderPage (setCurrentPage learner p) = LearnerModule
   \<and> AppContent_renderPage (setCurrentPage admin p) = AdminDashboard
   \<and> AppContent_renderPage (setCurrentPage translation p) = TranslationModule
   \<and> AppContent_renderPage (setCurrentPage voice p) = VoiceModule
   \<and> (pathname \<noteq> ''/auth/callback'' \<longrightarrow>
        map_sum id fst (App_auth origin st pathname (setCurrentPage landing p)) = Inr LandingPage
      \<and> map_sum id fst (App_auth origin st pathname (setCurrentPage learner p)) = Inr LearnerModule
      \<and> map_sum id fst (App_auth origin st pathname (setCurrentPage admin p)) = Inr AdminDashboard
      \<and> map_sum id fst (App_auth origin st pathname (setCurrentPage translation p))
          = Inr TranslationModule
      \<and> map_sum id fst (App_auth origin st pathname (setCurrentPage voice p)) = Inr VoiceModule)
   \<and> initial_currentPage = landing"
  by (simp add: setCurrentPage_funpow App_auth_mounts App_def initial_currentPage_def)
     (simp add: setCurrentPage_def)

theorem navigate_idempotent_witness:
  "map_sum id fst (App_auth ''https://app.example'' signed_in ''/''
      (setCurrentPage admin landing)) = Inr AdminDashboard
   \<and> (setCurrentPage learner ^^ Suc 2) landing = setCurrentPage learner landing"
proof -
  have h: "''/'' \<noteq> ''/auth/callback''" by simp
  from navigate_idempotent [of learner landing 2 "''/''" "''https://app.example''" signed_in] h
  show ?thesis by blast
qed

text \<open>
  Claim C10. With no user in the store and a path other than the callback route, the
  variant with authentication mounts, for each of the five screens, the presenter that
  the variant without authentication mounts, and starts no timer.
\<close>

theorem variants_agree_without_user:
  assumes "user st = None" and "pathname \<noteq> ''/auth/callback''"
  shows "App_auth origin st pathname p = Inr (App p, [])"
  using assms
  by (cases p)
     (simp_all add: App_auth_def AppContent_def useAuth_def useContext_def
        AuthProvider_value_def App_def)

theorem variants_agree_without_user_witness:
  "App_auth ''https://app.example'' AuthProvider_init ''/'' voice = Inr (App voice, [])"
proof -
  have h1: "user AuthProvider_init = None" by (simp add: AuthProvider_init_def)
  have h2: "''/'' \<noteq> ''/auth/callback''" by simp
  show ?thesis
    by (rule variants_agree_without_user [OF h1 h2])
qed

section \<open>Properties of the translation presenter\<close>

text \<open>
  Claim C8, as stated, fails. One millisecond before the timer of \<^verbatim>\<open>handleTranslate\<close> is
  due and at the moment it is due, the source pane shows the source string and the target
  pane the translated string: no pane changes its text, and the two strings differ.
\<close>

theorem translate_shows_same_text_before_and_after:
  "source_pane (TranslationModule_render
      (cells (elapse 1999 (handleTranslate TranslationModule_init)))) = sourceText
   \<and> source_pane (TranslationModule_render
      (cells (elapse 2000 (handleTranslate TranslationModule_init)))) = sourceText
   \<and> target_pane (TranslationModule_render
      (cells (elapse 1999 (handleTranslate TranslationModule_init)))) = translatedText
   \<and> target_pane (TranslationModule_render
      (cells (elapse 2000 (handleTranslate TranslationModule_init)))) = translatedText
   \<and> sourceText \<noteq> translatedText"
  by (simp add: TranslationModule_render_def)

text \<open>
  Claim C8, amended. In every state the source pane shows the source string and the
  target pane the translated string. The translate operation sets the flag
  \<^verbatim>\<open>isTranslating\<close>: the button is disabled and labelled \<^verbatim>\<open>Translating...\<close> until 2000 ms
  have passed, and enabled and labelled \<^verbatim>\<open>Translate\<close> from then on.
\<close>

theorem translate_toggles_flag_only:
  assumes "timeouts rt = []" and "d1 < 2000" and "2000 \<le> d2"
  shows "source_pane (TranslationModule_render st) = sourceText
         \<and> target_pane (TranslationModule_render st) = translatedText
         \<and> isTranslating (cells (handleTranslate rt))
         \<and> isTranslating (cells (elapse d1 (handleTranslate rt)))
         \<and> translate_label (TranslationModule_render (cells (elapse d1 (handleTranslate rt))))
             = ''Translating...''
         \<and> translate_disabled (TranslationModule_render (cells (elapse d1 (handleTranslate rt))))
         \<and> \<not> isTranslating (cells (elapse d2 (handleTranslate rt)))
         \<and> translate_label (TranslationModule_render (cells (elapse d2 (handleTranslate rt))))
             = ''Translate''
         \<and> \<not> translate_disabled (TranslationModule_render (cells (elapse d2 (handleTranslate rt))))"
  using assms
  by (simp add: TranslationModule_render_def handleTranslate_def elapse_def Let_def)

theorem translate_toggles_flag_only_witness:
  "isTranslating (cells (elapse 1999 (handleTranslate TranslationModule_init)))
   \<and> \<not> isTranslating (cells (elapse 2000 (handleTranslate TranslationModule_init)))"
proof -
  have h1: "timeouts TranslationModule_init = []" by (simp add: TranslationModule_init_def)
  have h2: "(1999::nat) < 2000" by simp
  have h3: "(2000::nat) \<le> 2000" by simp
  from translate_toggles_flag_only [OF h1 h2 h3]
  show ?thesis by blast
qed

end
